theory Spec2Isabelle
  imports Main "HOL-Library.AList"
begin

section \<open>Data model\<close>

text \<open>
  A shallow embedding of \<^verbatim>\<open>APIClient.go\<close> (package \<^verbatim>\<open>api_go_sdk\<close>), executed by one
  goroutine. Go's \<^verbatim>\<open>error\<close> is its message; a \<^verbatim>\<open>nil\<close> error is \<open>None\<close>. A decoded
  JSON value (\<^verbatim>\<open>interface{}\<close>) is a \<open>json\<close>; a \<^verbatim>\<open>map[string]interface{}\<close> is an
  association list read with \<open>map_of\<close> and written with \<open>AList.update\<close>. \<open>JArr\<close> is a
  \<^verbatim>\<open>[]interface{}\<close>, as the decoder produces it; \<open>JMaps\<close> is the
  \<^verbatim>\<open>[]map[string]interface{}\<close> that only the pagination engine builds, a different
  dynamic type under a type assertion.
\<close>

type_synonym error = string

datatype json =
  JNull
  | JBool bool
  | JNum int
  | JStr string
  | JArr "json list"
  | JObj "(string \<times> json) list"
  | JMaps "(string \<times> json) list list"

type_synonym jmap = "(string \<times> json) list"

text \<open>The constants of the source.\<close>

definition InProgress :: string where
  "InProgress = ''in progress''"

definition DefaultPort :: int where
  "DefaultPort = 443"


definition WebContext :: string where
  "WebContext = ''web_api''"

text \<open>
  \<^verbatim>\<open>APIResponse\<close> is declared in another file of the package; these are the fields and
  the zero value that \<^verbatim>\<open>APIClient.go\<close> reads and writes.
\<close>

record APIResponse =
  Success :: bool
  StatusCode :: string
  data :: jmap
  ErrorMsg :: string

definition emptyResponse :: APIResponse where
  "emptyResponse = \<lparr>Success = False, StatusCode = [], data = [], ErrorMsg = []\<rparr>"

text \<open>The fields of \<^verbatim>\<open>ApiClient\<close> that the modelled code uses (the three mutexes, the
  timeouts and the debug settings have no effect on one goroutine's results).\<close>

record ApiClient =
  port :: int
  isPortDefault :: bool
  fingerprint :: string
  sid :: string
  server :: string
  domain :: string
  isProxyUsed :: bool
  apiVersion :: string
  ignoreServerCertificate :: bool
  acceptServerCertificate :: bool
  apiContext :: string
  userAgent :: string
  cloudMgmtId :: string
  autoPublishBatchSize :: int
  duringPublish :: bool
  activeCallsCtr :: int
  totalCallsCtr :: int

text \<open>What \<^verbatim>\<open>client.client.Do\<close> is given: the request of lines 378 to 409.\<close>

record request =
  reqMethod :: string
  reqUrl :: string
  reqCommand :: string
  reqHeaders :: "(string \<times> string) list"
  reqBody :: jmap
  reqViaProxy :: bool
  reqPinned :: string

datatype fileState =
  NoFile
  | JsonFile "(string \<times> string) list"
  | BadFile

text \<open>
  The world outside the client. The functions below belong to other files of the
  package or to the operating system, and are parameters of the model:
  \<^item> \<open>getFingerprint server port k\<close>: the \<open>k\<close>-th probe of the server's certificate;
  \<^item> \<open>createClient useProxy\<close>: the error of \<^verbatim>\<open>CreateClient\<close> / \<^verbatim>\<open>CreateProxyClient\<close>;
  \<^item> \<open>newRequest method url\<close>: the error of \<^verbatim>\<open>http.NewRequest\<close>;
  \<^item> \<open>roundTrip req k\<close>: \<^verbatim>\<open>client.client.Do\<close> followed by \<^verbatim>\<open>fromHTTPResponse\<close> for the
    \<open>k\<close>-th request on the wire; \<open>Inl\<close> is the error of either (the source treats both
    the same way);
  \<^item> \<open>buildGenericErrMsg\<close>: the method of \<^verbatim>\<open>APIResponse\<close>;
  \<^item> \<open>stdinLine k\<close>: what \<^verbatim>\<open>fmt.Scanln\<close> reads at the \<open>k\<close>-th prompt;
  \<^item> \<open>fsWritable\<close>: whether \<^verbatim>\<open>os.Create\<close> and \<^verbatim>\<open>ioutil.WriteFile\<close> succeed.
\<close>

record env =
  getFingerprint :: "string \<Rightarrow> int \<Rightarrow> nat \<Rightarrow> error + string"
  createClient :: "bool \<Rightarrow> error option"
  newRequest :: "string \<Rightarrow> string \<Rightarrow> error option"
  roundTrip :: "request \<Rightarrow> nat \<Rightarrow> error + APIResponse"
  buildGenericErrMsg :: "APIResponse \<Rightarrow> string"
  stdinLine :: "nat \<Rightarrow> string"
  fsWritable :: bool

text \<open>
  The state a call reads and writes: the client, the file \<^verbatim>\<open>fingerprints.json\<close>, how
  often it was written, how many probes and prompts happened, and the requests sent.
\<close>

record st =
  cl :: ApiClient
  fpFile :: fileState
  fileWrites :: nat
  probes :: nat
  asked :: nat
  sent :: "request list"

text \<open>
  How a call ends when it ends: it returns, it panics (a failed type assertion), or it
  ends the process (\<^verbatim>\<open>os.Exit(1)\<close>). A call that never returns is \<open>None\<close> of the
  enclosing \<open>option\<close>.
\<close>

datatype 'a outcome =
  Returned 'a
  | Panic
  | Exit

type_synonym callResult = "(st \<times> APIResponse \<times> error option) outcome option"

section \<open>Counters\<close>

definition increaseActiveCalls :: "st \<Rightarrow> st" where
  "increaseActiveCalls s = s\<lparr>cl := (cl s)\<lparr>activeCallsCtr := activeCallsCtr (cl s) + 1\<rparr>\<rparr>"

definition decreaseActiveCalls :: "st \<Rightarrow> st" where
  "decreaseActiveCalls s = s\<lparr>cl := (cl s)\<lparr>activeCallsCtr := activeCallsCtr (cl s) - 1\<rparr>\<rparr>"

section \<open>Fingerprint area\<close>

definition fileMissing :: error where
  "fileMissing = ''open fingerprints.json: no such file or directory''"

definition fileMalformed :: error where
  "fileMalformed = ''fingerprints.json: cannot unmarshal''"

definition fileReadOnly :: error where
  "fileReadOnly = ''open fingerprints.json: permission denied''"

text \<open>\<^verbatim>\<open>createEmptyJsonFile\<close>; its only caller drops the error it returns.\<close>

definition createEmptyJsonFile :: "env \<Rightarrow> st \<Rightarrow> st" where
  "createEmptyJsonFile e s =
     (if fpFile s = NoFile \<and> fsWritable e
      then s\<lparr>fpFile := JsonFile [], fileWrites := fileWrites s + 1\<rparr>
      else s)"

definition fpFileToMap :: "env \<Rightarrow> st \<Rightarrow> st \<times> (error + (string \<times> string) list)" where
  "fpFileToMap e s =
     (let s1 = createEmptyJsonFile e s in
      case fpFile s1 of
        NoFile \<Rightarrow> (s1, Inl fileMissing)
      | BadFile \<Rightarrow> (s1, Inl fileMalformed)
      | JsonFile objmap \<Rightarrow> (s1, Inr objmap))"

text \<open>\<^verbatim>\<open>saveFingerprintToFile\<close>: the key is \<^verbatim>\<open>c.server\<close>, whatever \<open>srv\<close> is; a map of
  strings always marshals.\<close>

definition saveFingerprintToFile :: "env \<Rightarrow> st \<Rightarrow> string \<Rightarrow> string \<Rightarrow> st \<times> error option" where
  "saveFingerprintToFile e s srv fp =
     (case fpFileToMap e s of
        (s1, Inl err) \<Rightarrow> (s1, Some err)
      | (s1, Inr objmap) \<Rightarrow>
          if map_of objmap (server (cl s1)) = Some fp then (s1, None)
          else if fsWritable e
          then (s1\<lparr>fpFile := JsonFile (AList.update (server (cl s1)) fp objmap),
                   fileWrites := fileWrites s1 + 1\<rparr>, None)
          else (s1, Some fileReadOnly))"

definition loadFingerprintFromFile :: "env \<Rightarrow> st \<Rightarrow> st \<times> string \<times> error option" where
  "loadFingerprintFromFile e s =
     (case fpFileToMap e s of
        (s1, Inl err) \<Rightarrow> (s1, [], Some err)
      | (s1, Inr objmap) \<Rightarrow>
          (case map_of objmap (server (cl s1)) of
             Some val \<Rightarrow> (s1, val, None)
           | None \<Rightarrow>
               (case saveFingerprintToFile e s1 (server (cl s1)) (fingerprint (cl s1)) of
                  (s2, Some err) \<Rightarrow> (s2, [], Some err)
                | (s2, None) \<Rightarrow> (s2, fingerprint (cl s2), None))))"

text \<open>\<^verbatim>\<open>strings.ToLower\<close> on the answer: only \<^verbatim>\<open>Y\<close>, \<^verbatim>\<open>E\<close>, \<^verbatim>\<open>S\<close> lower to the letters of
  \<^verbatim>\<open>y\<close> and \<^verbatim>\<open>yes\<close>, so the table of the ASCII letters decides.\<close>

definition toLowerChar :: "char \<Rightarrow> char" where
  "toLowerChar ch =
     (case map_of (zip ''ABCDEFGHIJKLMNOPQRSTUVWXYZ'' ''abcdefghijklmnopqrstuvwxyz'') ch of
        None \<Rightarrow> ch
      | Some lower \<Rightarrow> lower)"

definition askYesOrNoQuestion :: "env \<Rightarrow> st \<Rightarrow> st \<times> bool" where
  "askYesOrNoQuestion e s =
     (let answer = map toLowerChar (stdinLine e (asked s)) in
      (s\<lparr>asked := asked s + 1\<rparr>, answer = ''y'' \<or> answer = ''yes''))"

text \<open>\<^verbatim>\<open>strings.Replace(fp, ":", "", -1)\<close>.\<close>

definition removeColons :: "string \<Rightarrow> string" where
  "removeColons fp = filter (\<lambda>ch. ch \<noteq> CHR '':'') fp"

definition setFingerprint :: "string \<Rightarrow> st \<Rightarrow> st" where
  "setFingerprint fp s = s\<lparr>cl := (cl s)\<lparr>fingerprint := fp\<rparr>\<rparr>"

definition CheckFingerprint :: "env \<Rightarrow> st \<Rightarrow> st \<times> bool \<times> error option" where
  "CheckFingerprint e s =
     (if ignoreServerCertificate (cl s) then (s, True, None)
      else
        case loadFingerprintFromFile e s of
          (s1, localFp, Some err) \<Rightarrow> (s1, False, Some err)
        | (s1, localFp, None) \<Rightarrow>
            (let s2 = s1\<lparr>probes := probes s1 + 1\<rparr> in
             case getFingerprint e (server (cl s1)) (port (cl s1)) (probes s1) of
               Inl errFP \<Rightarrow> (s2, False, Some errFP)
             | Inr serverFp \<Rightarrow>
                 if fingerprint (cl s2) = serverFp then (s2, True, None)
                 else if localFp = [] \<or> removeColons localFp \<noteq> removeColons serverFp
                 then
                   (if serverFp = [] then (s2, False, None)
                    else if acceptServerCertificate (cl s2)
                    then (fst (saveFingerprintToFile e s2 (server (cl s2)) (fingerprint (cl s2))),
                          True, None)
                    else
                      case askYesOrNoQuestion e s2 of
                        (s3, True) \<Rightarrow>
                          (setFingerprint serverFp
                             (fst (saveFingerprintToFile e s3 (server (cl s3)) serverFp)),
                           True, None)
                      | (s3, False) \<Rightarrow> (s3, False, None))
                 else (setFingerprint serverFp s2, True, None)))"

section \<open>Requests\<close>

definition isValidHTTPMethod :: "string \<Rightarrow> bool" where
  "isValidHTTPMethod m = (m \<in> set [''GET'', ''POST'', ''PUT'', ''DELETE''])"

text \<open>\<^verbatim>\<open>strconv.Itoa\<close>.\<close>

fun natDigits :: "nat \<Rightarrow> string" where
  "natDigits n =
     (if n < 10 then [char_of (48 + n)]
      else natDigits (n div 10) @ [char_of (48 + n mod 10)])"

declare natDigits.simps [simp del]

definition Itoa :: "int \<Rightarrow> string" where
  "Itoa i = (if i < 0 then CHR ''-'' # natDigits (nat (- i)) else natDigits (nat i))"

definition buildUrl :: "ApiClient \<Rightarrow> string \<Rightarrow> string" where
  "buildUrl c command =
     ''https://'' @ server c @ '':'' @ Itoa (port c)
     @ (if cloudMgmtId c \<noteq> [] then ''/'' @ cloudMgmtId c else [])
     @ ''/'' @ apiContext c
     @ (if apiVersion c \<noteq> [] then ''/v'' @ apiVersion c else [])
     @ ''/'' @ command"

definition buildHeaders :: "ApiClient \<Rightarrow> string \<Rightarrow> string \<Rightarrow> (string \<times> string) list" where
  "buildHeaders c command sidv =
     [(''Content-Type'', ''application/json''), (''User-Agent'', userAgent c), (''Accept'', ''*/*'')]
     @ (if command \<noteq> ''login'' then [(''X-chkp-sid'', sidv)] else [])"

definition fingerprintMismatch :: error where
  "fingerprintMismatch =
     ''fingerprint doesn't match, someone might be trying to steal your information''"

text \<open>
  Lines 330 to 409 of \<^verbatim>\<open>apiCall\<close>: the method check, the probe that overwrites
  \<^verbatim>\<open>c.fingerprint\<close>, the trust check, and the request. \<open>Inl\<close> is the error returned
  beside \<^verbatim>\<open>APIResponse{}\<close>.
\<close>

definition apiCallPrepare ::
  "env \<Rightarrow> st \<Rightarrow> string \<Rightarrow> jmap \<Rightarrow> string \<Rightarrow> bool \<Rightarrow> string list \<Rightarrow> st \<times> (error + request)" where
  "apiCallPrepare e s command payload sidArg useProxy method =
     (if method \<noteq> [] \<and> \<not> isValidHTTPMethod (hd method)
      then (s, Inl (''invalid HTTP method: '' @ hd method))
      else
        let reqM = (if method \<noteq> [] then hd method else ''POST'');
            s1 = s\<lparr>probes := probes s + 1\<rparr>
        in
        case getFingerprint e (server (cl s)) (port (cl s)) (probes s) of
          Inl errFP \<Rightarrow> (s1, Inl errFP)
        | Inr fp \<Rightarrow>
            (case CheckFingerprint e (setFingerprint fp s1) of
               (s2, fpAuthentication, err) \<Rightarrow>
                 if \<not> fpAuthentication then (s2, Inl fingerprintMismatch)
                 else
                   case err of
                     Some er \<Rightarrow> (s2, Inl er)
                   | None \<Rightarrow>
                       (let sidv = (if sidArg = [] then sid (cl s2) else sidArg) in
                        case createClient e useProxy of
                          Some er \<Rightarrow> (s2, Inl er)
                        | None \<Rightarrow>
                            (let url = buildUrl (cl s2) command in
                             case newRequest e reqM url of
                               Some er \<Rightarrow> (s2, Inl er)
                             | None \<Rightarrow>
                                 (s2, Inr \<lparr>reqMethod = reqM, reqUrl = url, reqCommand = command,
                                           reqHeaders = buildHeaders (cl s2) command sidv,
                                           reqBody = payload, reqViaProxy = useProxy,
                                           reqPinned = fingerprint (cl s2)\<rparr>)))))"

text \<open>Lines 429 to 448: the request goes on the wire; an unsuccessful response gets
  the generic message.\<close>

definition exchange :: "env \<Rightarrow> st \<Rightarrow> request \<Rightarrow> st \<times> (error + APIResponse)" where
  "exchange e s req =
     (let s1 = s\<lparr>sent := sent s @ [req]\<rparr> in
      case roundTrip e req (length (sent s)) of
        Inl err \<Rightarrow> (s1, Inl err)
      | Inr res \<Rightarrow>
          (s1, Inr (if \<not> Success res then res\<lparr>ErrorMsg := buildGenericErrMsg e res\<rparr> else res)))"

section \<open>Auto-publish: admission and publish\<close>

definition gated :: "bool \<Rightarrow> st \<Rightarrow> bool" where
  "gated internal s = (\<not> internal \<and> autoPublishBatchSize (cl s) > 0)"

definition admissible :: "st \<Rightarrow> bool" where
  "admissible s =
     (totalCallsCtr (cl s) + 1 \<le> autoPublishBatchSize (cl s) \<and> \<not> duringPublish (cl s))"

text \<open>
  Lines 412 to 425, the admission loop: the test, the same test under the lock, and a
  sleep of one second before the next round when either fails.
\<close>

partial_function (option) admit :: "st \<Rightarrow> st option" where
  "admit s =
     (if admissible s
      then (if admissible s
            then Some (s\<lparr>cl := (cl s)\<lparr>totalCallsCtr := totalCallsCtr (cl s) + 1\<rparr>\<rparr>)
            else admit s)
      else admit s)"

text \<open>Lines 474 to 478: wait for the other active calls.\<close>

partial_function (option) drain :: "st \<Rightarrow> st option" where
  "drain s = (if activeCallsCtr (cl s) > 0 then drain s else Some s)"

definition publishDue :: "st \<Rightarrow> bool" where
  "publishDue s =
     (totalCallsCtr (cl s) > 0
      \<and> totalCallsCtr (cl s) mod autoPublishBatchSize (cl s) = 0
      \<and> \<not> duringPublish (cl s))"

definition finishPublish :: "st \<Rightarrow> st" where
  "finishPublish s = s\<lparr>cl := (cl s)\<lparr>totalCallsCtr := 0, duringPublish := False\<rparr>\<rparr>"

text \<open>
  Lines 469 to 493, after \<^verbatim>\<open>decreaseActiveCalls\<close>. \<open>pub\<close> is the recursive
  \<^verbatim>\<open>c.apiCall("publish", ..., true, c.IsProxyUsed(), true)\<close>; its response and error
  are only printed.
\<close>

definition autoPublish ::
  "(env \<Rightarrow> st \<Rightarrow> string \<Rightarrow> jmap \<Rightarrow> string \<Rightarrow> bool \<Rightarrow> bool \<Rightarrow> bool \<Rightarrow> string list \<Rightarrow> callResult)
   \<Rightarrow> env \<Rightarrow> st \<Rightarrow> APIResponse \<Rightarrow> callResult" where
  "autoPublish pub e s res =
     (if publishDue s
      then (if publishDue s
            then
              (case drain (s\<lparr>cl := (cl s)\<lparr>duringPublish := True\<rparr>\<rparr>) of
                 None \<Rightarrow> None
               | Some s1 \<Rightarrow>
                   (case pub e s1 ''publish'' [] (sid (cl s1)) True (isProxyUsed (cl s1)) True [] of
                      None \<Rightarrow> None
                    | Some Panic \<Rightarrow> Some Panic
                    | Some Exit \<Rightarrow> Some Exit
                    | Some (Returned (s2, publishRes, perr)) \<Rightarrow>
                        Some (Returned (finishPublish s2, res, None))))
            else Some (Returned (s, res, None)))
      else Some (Returned (s, res, None)))"

section \<open>Following tasks\<close>

text \<open>Lines 450 to 465. \<open>wft\<close> is \<^verbatim>\<open>c.waitForTask\<close> and \<open>wfts\<close> is \<^verbatim>\<open>c.waitForTasks\<close>.\<close>

definition followTask ::
  "(env \<Rightarrow> st \<Rightarrow> string \<Rightarrow> callResult)
   \<Rightarrow> (env \<Rightarrow> st \<Rightarrow> json list \<Rightarrow> (st \<times> APIResponse) outcome option)
   \<Rightarrow> env \<Rightarrow> st \<Rightarrow> string \<Rightarrow> bool \<Rightarrow> APIResponse \<Rightarrow> callResult" where
  "followTask wft wfts e s command waitFor res =
     (if waitFor \<and> Success res \<and> command \<noteq> ''show-task''
      then
        (case map_of (data res) ''task-id'' of
           Some v \<Rightarrow> (case v of JStr taskId \<Rightarrow> wft e s taskId | _ \<Rightarrow> Some Panic)
         | None \<Rightarrow>
             (case map_of (data res) ''tasks'' of
                Some v \<Rightarrow>
                  (case v of
                     JArr tasks \<Rightarrow>
                       if length tasks > 0
                       then
                         (case wfts e s tasks of
                            None \<Rightarrow> None
                          | Some Panic \<Rightarrow> Some Panic
                          | Some Exit \<Rightarrow> Some Exit
                          | Some (Returned (s1, r)) \<Rightarrow> Some (Returned (s1, r, None)))
                       else Some (Returned (s, res, None))
                   | _ \<Rightarrow> Some Panic)
              | None \<Rightarrow> Some (Returned (s, res, None))))
      else Some (Returned (s, res, None)))"

section \<open>apiCall\<close>

text \<open>
  The body of \<^verbatim>\<open>apiCall\<close>, with the three calls it makes to the rest of the client as
  parameters: \<^verbatim>\<open>waitForTask\<close>, \<^verbatim>\<open>waitForTasks\<close> and the \<^verbatim>\<open>apiCall\<close> of the publish.
\<close>

definition apiCallWith ::
  "(env \<Rightarrow> st \<Rightarrow> string \<Rightarrow> callResult)
   \<Rightarrow> (env \<Rightarrow> st \<Rightarrow> json list \<Rightarrow> (st \<times> APIResponse) outcome option)
   \<Rightarrow> (env \<Rightarrow> st \<Rightarrow> string \<Rightarrow> jmap \<Rightarrow> string \<Rightarrow> bool \<Rightarrow> bool \<Rightarrow> bool \<Rightarrow> string list \<Rightarrow> callResult)
   \<Rightarrow> env \<Rightarrow> st \<Rightarrow> string \<Rightarrow> jmap \<Rightarrow> string \<Rightarrow> bool \<Rightarrow> bool \<Rightarrow> bool \<Rightarrow> string list \<Rightarrow> callResult" where
  "apiCallWith wft wfts pub e s command payload sidArg waitFor useProxy internal method =
     (case apiCallPrepare e s command payload sidArg useProxy method of
        (s1, Inl err) \<Rightarrow> Some (Returned (s1, emptyResponse, Some err))
      | (s1, Inr req) \<Rightarrow>
          (case (if gated internal s1 then map_option increaseActiveCalls (admit s1) else Some s1) of
             None \<Rightarrow> None
           | Some s2 \<Rightarrow>
               (case exchange e s2 req of
                  (s3, Inl err) \<Rightarrow>
                    Some (Returned ((if gated internal s3 then decreaseActiveCalls s3 else s3),
                                    emptyResponse, Some err))
                | (s3, Inr res) \<Rightarrow>
                    (case followTask wft wfts e s3 command waitFor res of
                       None \<Rightarrow> None
                     | Some Panic \<Rightarrow> Some Panic
                     | Some Exit \<Rightarrow> Some Exit
                     | Some (Returned (s4, res1, Some err)) \<Rightarrow>
                         Some (Returned ((if gated internal s4 then decreaseActiveCalls s4 else s4),
                                         emptyResponse, Some err))
                     | Some (Returned (s4, res1, None)) \<Rightarrow>
                         if gated internal s4
                         then autoPublish pub e (decreaseActiveCalls s4) res1
                         else Some (Returned (s4, res1, None))))))"

text \<open>
  The calls with \<^verbatim>\<open>internal = true\<close> and \<^verbatim>\<open>waitForTask = false\<close> (every \<^verbatim>\<open>show-task\<close> poll,
  every page of a query, the login) reach none of the three parameters.
\<close>

definition apiCallLeaf ::
  "env \<Rightarrow> st \<Rightarrow> string \<Rightarrow> jmap \<Rightarrow> string \<Rightarrow> bool \<Rightarrow> bool \<Rightarrow> bool \<Rightarrow> string list \<Rightarrow> callResult" where
  "apiCallLeaf = apiCallWith (\<lambda>e s t. None) (\<lambda>e s ts. None) (\<lambda>e s c p i w u n m. None)"

section \<open>Task poller: waitForTask and waitForTasks\<close>

definition jget :: "jmap \<Rightarrow> string \<Rightarrow> json" where
  "jget m k = (case map_of m k of None \<Rightarrow> JNull | Some v \<Rightarrow> v)"

text \<open>\<^verbatim>\<open>checkTasksStatus\<close>: the scan stops at the first failed task; \<open>None\<close> is the
  panic of \<^verbatim>\<open>task.(map[string]interface{})\<close>.\<close>

definition taskFailed :: "jmap \<Rightarrow> bool" where
  "taskFailed t =
     (jget t ''status'' = JStr ''failed'' \<or> jget t ''status'' = JStr ''partially succeeded'')"

fun anyTaskFailed :: "json list \<Rightarrow> bool option" where
  "anyTaskFailed [] = Some False"
| "anyTaskFailed (t # ts) =
     (case t of
        JObj m \<Rightarrow> if taskFailed m then Some True else anyTaskFailed ts
      | _ \<Rightarrow> None)"

definition markFailed :: "env \<Rightarrow> APIResponse \<Rightarrow> APIResponse" where
  "markFailed e r =
     (let r1 = r\<lparr>Success := False, StatusCode := []\<rparr>
      in r1\<lparr>ErrorMsg := buildGenericErrMsg e r1\<rparr>)"

definition checkTasksStatus :: "env \<Rightarrow> APIResponse \<Rightarrow> APIResponse outcome" where
  "checkTasksStatus e taskResult =
     (case jget (data taskResult) ''tasks'' of
        JNull \<Rightarrow> Returned taskResult
      | JArr ts \<Rightarrow>
          (case anyTaskFailed ts of
             None \<Rightarrow> Panic
           | Some True \<Rightarrow> Returned (markFailed e taskResult)
           | Some False \<Rightarrow> Returned taskResult)
      | _ \<Rightarrow> Panic)"

text \<open>Lines 715 to 723: the two counters; \<open>None\<close> is a panic of a type assertion.\<close>

fun countTasks :: "json list \<Rightarrow> nat \<Rightarrow> nat \<Rightarrow> (nat \<times> nat) option" where
  "countTasks [] completedTasks totalTasks = Some (completedTasks, totalTasks)"
| "countTasks (t # ts) completedTasks totalTasks =
     (case t of
        JObj taskMap \<Rightarrow>
          (case jget taskMap ''status'' of
             JNull \<Rightarrow> countTasks ts completedTasks (totalTasks + 1)
           | JStr status \<Rightarrow>
               if status \<noteq> InProgress
               then countTasks ts (completedTasks + 1) (totalTasks + 1)
               else countTasks ts completedTasks (totalTasks + 1)
           | _ \<Rightarrow> None)
      | _ \<Rightarrow> None)"

definition showTask :: "env \<Rightarrow> st \<Rightarrow> jmap \<Rightarrow> callResult" where
  "showTask e s payload =
     apiCallLeaf e s ''show-task'' payload (sid (cl s)) False (isProxyUsed (cl s)) True []"

text \<open>Lines 699 to 713: the loop over an unsuccessful poll.\<close>

partial_function (option) retryPoll :: "env \<Rightarrow> st \<Rightarrow> jmap \<Rightarrow> APIResponse \<Rightarrow> nat \<Rightarrow> callResult" where
  "retryPoll e s payload taskResult attemptsCounter =
     (if Success taskResult = False
      then
        (if attemptsCounter < 5
         then
           (case showTask e s payload of
              None \<Rightarrow> None
            | Some Panic \<Rightarrow> Some Panic
            | Some Exit \<Rightarrow> Some Exit
            | Some (Returned (s1, r, Some err)) \<Rightarrow> Some (Returned (s1, emptyResponse, Some err))
            | Some (Returned (s1, r, None)) \<Rightarrow> retryPoll e s1 payload r (attemptsCounter + 1))
         else retryPoll e s payload taskResult attemptsCounter)
      else Some (Returned (s, taskResult, None)))"

text \<open>Lines 690 to 731: the loop until the task is complete.\<close>

partial_function (option) pollTask :: "env \<Rightarrow> st \<Rightarrow> jmap \<Rightarrow> callResult" where
  "pollTask e s payload =
     (case showTask e s payload of
        None \<Rightarrow> None
      | Some Panic \<Rightarrow> Some Panic
      | Some Exit \<Rightarrow> Some Exit
      | Some (Returned (s1, r, Some err)) \<Rightarrow> Some (Returned (s1, emptyResponse, Some err))
      | Some (Returned (s1, r, None)) \<Rightarrow>
          (case retryPoll e s1 payload r 0 of
             None \<Rightarrow> None
           | Some Panic \<Rightarrow> Some Panic
           | Some Exit \<Rightarrow> Some Exit
           | Some (Returned (s2, r2, Some err)) \<Rightarrow> Some (Returned (s2, r2, Some err))
           | Some (Returned (s2, taskResult, None)) \<Rightarrow>
               (case jget (data taskResult) ''tasks'' of
                  JArr tasks \<Rightarrow>
                    (case countTasks tasks 0 0 of
                       None \<Rightarrow> Some Panic
                     | Some (completedTasks, totalTasks) \<Rightarrow>
                         if completedTasks = totalTasks
                         then Some (Returned (s2, taskResult, None))
                         else pollTask e s2 payload)
                | _ \<Rightarrow> Some Panic)))"

definition waitForTask :: "env \<Rightarrow> st \<Rightarrow> string \<Rightarrow> callResult" where
  "waitForTask e s taskId =
     (case pollTask e s [(''task-id'', JStr taskId), (''details-level'', JStr ''full'')] of
        None \<Rightarrow> None
      | Some Panic \<Rightarrow> Some Panic
      | Some Exit \<Rightarrow> Some Exit
      | Some (Returned (s1, r, Some err)) \<Rightarrow> Some (Returned (s1, r, Some err))
      | Some (Returned (s1, taskResult, None)) \<Rightarrow>
          (case checkTasksStatus e taskResult of
             Returned r \<Rightarrow> Some (Returned (s1, r, None))
           | Panic \<Rightarrow> Some Panic
           | Exit \<Rightarrow> Some Exit))"

text \<open>\<^verbatim>\<open>waitForTasks\<close>: each task is polled to completion and its result dropped; then
  one \<^verbatim>\<open>show-task\<close> for all ids, whose error is only printed.\<close>

fun waitEach :: "env \<Rightarrow> st \<Rightarrow> json list \<Rightarrow> string list \<Rightarrow> (st \<times> string list) outcome option" where
  "waitEach e s [] tasks = Some (Returned (s, tasks))"
| "waitEach e s (taskObj # rest) tasks =
     (case taskObj of
        JObj m \<Rightarrow>
          (case jget m ''task-id'' of
             JStr taskId \<Rightarrow>
               (case waitForTask e s taskId of
                  None \<Rightarrow> None
                | Some Panic \<Rightarrow> Some Panic
                | Some Exit \<Rightarrow> Some Exit
                | Some (Returned (s1, r, err)) \<Rightarrow> waitEach e s1 rest (tasks @ [taskId]))
           | _ \<Rightarrow> Some Panic)
      | _ \<Rightarrow> Some Panic)"

definition waitForTasks :: "env \<Rightarrow> st \<Rightarrow> json list \<Rightarrow> (st \<times> APIResponse) outcome option" where
  "waitForTasks e s taskObjects =
     (case waitEach e s taskObjects [] of
        None \<Rightarrow> None
      | Some Panic \<Rightarrow> Some Panic
      | Some Exit \<Rightarrow> Some Exit
      | Some (Returned (s1, tasks)) \<Rightarrow>
          (case showTask e s1 [(''task-id'', JArr (map JStr tasks)), (''details-level'', JStr ''full'')] of
             None \<Rightarrow> None
           | Some Panic \<Rightarrow> Some Panic
           | Some Exit \<Rightarrow> Some Exit
           | Some (Returned (s2, taskRes, err)) \<Rightarrow>
               (case checkTasksStatus e taskRes of
                  Returned r \<Rightarrow> Some (Returned (s2, r))
                | Panic \<Rightarrow> Some Panic
                | Exit \<Rightarrow> Some Exit)))"

text \<open>
  \<^verbatim>\<open>apiCall\<close>. The publish is an \<^verbatim>\<open>apiCall\<close> with \<^verbatim>\<open>internal = true\<close>, which never
  publishes in turn.
\<close>

definition apiCallInternal ::
  "env \<Rightarrow> st \<Rightarrow> string \<Rightarrow> jmap \<Rightarrow> string \<Rightarrow> bool \<Rightarrow> bool \<Rightarrow> bool \<Rightarrow> string list \<Rightarrow> callResult" where
  "apiCallInternal = apiCallWith waitForTask waitForTasks (\<lambda>e s c p i w u n m. None)"

definition apiCall ::
  "env \<Rightarrow> st \<Rightarrow> string \<Rightarrow> jmap \<Rightarrow> string \<Rightarrow> bool \<Rightarrow> bool \<Rightarrow> bool \<Rightarrow> string list \<Rightarrow> callResult" where
  "apiCall = apiCallWith waitForTask waitForTasks apiCallInternal"

definition ApiCall ::
  "env \<Rightarrow> st \<Rightarrow> string \<Rightarrow> jmap \<Rightarrow> string \<Rightarrow> bool \<Rightarrow> bool \<Rightarrow> string list \<Rightarrow> callResult" where
  "ApiCall e s command payload sidArg waitFor useProxy method =
     apiCall e s command payload sidArg waitFor useProxy False method"

definition ApiCallSimple :: "env \<Rightarrow> st \<Rightarrow> string \<Rightarrow> jmap \<Rightarrow> callResult" where
  "ApiCallSimple e s command payload =
     apiCall e s command payload (sid (cl s)) True (isProxyUsed (cl s)) False []"

section \<open>Login\<close>

text \<open>Lines 273 to 286: the payload of the login. The \<^verbatim>\<open>range\<close> over \<open>payload\<close> writes
  each of its keys; the resulting map does not depend on the order.\<close>

definition loginPayload :: "ApiClient \<Rightarrow> jmap \<Rightarrow> bool \<Rightarrow> string \<Rightarrow> bool \<Rightarrow> jmap \<Rightarrow> jmap" where
  "loginPayload c credentials continueLastSession domainName readOnly payload =
     (let c1 = (if apiContext c = WebContext
                then AList.update ''read-only'' (JBool readOnly)
                       (AList.update ''continue-last-session'' (JBool continueLastSession) credentials)
                else credentials);
          c2 = (if domainName \<noteq> [] then AList.update ''domain'' (JStr domainName) c1 else c1)
      in fold (\<lambda>(k, v). AList.update k v) payload c2)"

text \<open>Lines 289 to 300: what the client keeps of the login's response.\<close>

definition loginStore :: "string \<Rightarrow> callResult \<Rightarrow> callResult" where
  "loginStore domainName r =
     (case r of
        None \<Rightarrow> None
      | Some Panic \<Rightarrow> Some Panic
      | Some Exit \<Rightarrow> Some Exit
      | Some (Returned (s1, loginRes, Some errCall)) \<Rightarrow> Some (Returned (s1, loginRes, Some errCall))
      | Some (Returned (s1, loginRes, None)) \<Rightarrow>
          if Success loginRes
          then
            (case jget (data loginRes) ''sid'' of
               JStr v \<Rightarrow>
                 (let s2 = s1\<lparr>cl := (cl s1)\<lparr>sid := v, domain := domainName\<rparr>\<rparr> in
                  if apiVersion (cl s2) = []
                  then
                    (case jget (data loginRes) ''api-server-version'' of
                       JStr ver \<Rightarrow>
                         Some (Returned (s2\<lparr>cl := (cl s2)\<lparr>apiVersion := ver\<rparr>\<rparr>, loginRes, None))
                     | _ \<Rightarrow> Some Panic)
                  else Some (Returned (s2, loginRes, None)))
             | _ \<Rightarrow> Some Panic)
          else Some (Returned (s1, loginRes, None)))"

definition commonLoginLogic ::
  "env \<Rightarrow> st \<Rightarrow> jmap \<Rightarrow> bool \<Rightarrow> string \<Rightarrow> bool \<Rightarrow> jmap \<Rightarrow> callResult" where
  "commonLoginLogic e s credentials continueLastSession domainName readOnly payload =
     loginStore domainName
       (apiCall e s ''login''
          (loginPayload (cl s) credentials continueLastSession domainName readOnly payload)
          [] False (isProxyUsed (cl s)) True [])"

definition ApiLogin ::
  "env \<Rightarrow> st \<Rightarrow> string \<Rightarrow> string \<Rightarrow> bool \<Rightarrow> string \<Rightarrow> bool \<Rightarrow> jmap \<Rightarrow> callResult" where
  "ApiLogin e s username password continueLastSession domainName readOnly payload =
     commonLoginLogic e s [(''user'', JStr username), (''password'', JStr password)]
       continueLastSession domainName readOnly payload"

definition ApiLoginWithApiKey ::
  "env \<Rightarrow> st \<Rightarrow> string \<Rightarrow> bool \<Rightarrow> string \<Rightarrow> bool \<Rightarrow> jmap \<Rightarrow> callResult" where
  "ApiLoginWithApiKey e s apiKey continueLastSession domainName readOnly payload =
     commonLoginLogic e s [(''api-key'', JStr apiKey)] continueLastSession domainName readOnly payload"

text \<open>The deprecated \<^verbatim>\<open>Login\<close> and \<^verbatim>\<open>LoginWithApiKey\<close> drop their \<open>payload\<close> string.\<close>

definition Login ::
  "env \<Rightarrow> st \<Rightarrow> string \<Rightarrow> string \<Rightarrow> bool \<Rightarrow> string \<Rightarrow> bool \<Rightarrow> string \<Rightarrow> callResult" where
  "Login e s username password continueLastSession domainName readOnly payload =
     commonLoginLogic e s [(''user'', JStr username), (''password'', JStr password)]
       continueLastSession domainName readOnly []"

definition LoginWithApiKey ::
  "env \<Rightarrow> st \<Rightarrow> string \<Rightarrow> bool \<Rightarrow> string \<Rightarrow> bool \<Rightarrow> string \<Rightarrow> callResult" where
  "LoginWithApiKey e s apiKey continueLastSession domainName readOnly payload =
     commonLoginLogic e s [(''api-key'', JStr apiKey)] continueLastSession domainName readOnly []"

section \<open>Pagination engine\<close>












section \<open>Scenarios\<close>

text \<open>
  A client for the server \<^verbatim>\<open>mgmt\<close> whose fingerprint \<^verbatim>\<open>AA:BB\<close> is configured and on
  file, and a world in which clients and requests can always be built, given by what
  the probes, the operator and the server answer.
\<close>

definition client0 :: ApiClient where
  "client0 = \<lparr>port = 443, isPortDefault = True, fingerprint = ''AA:BB'', sid = ''sid-0'',
     server = ''mgmt'', domain = [], isProxyUsed = False, apiVersion = ''1.9'',
     ignoreServerCertificate = False, acceptServerCertificate = False,
     apiContext = ''web_api'', userAgent = ''golang-api-wrapper'', cloudMgmtId = [],
     autoPublishBatchSize = 0, duringPublish = False, activeCallsCtr = 0, totalCallsCtr = 0\<rparr>"

definition state0 :: "ApiClient \<Rightarrow> st" where
  "state0 c = \<lparr>cl = c, fpFile = JsonFile [(''mgmt'', ''AA:BB'')], fileWrites = 0, probes = 0,
     asked = 0, sent = []\<rparr>"

definition envWith ::
  "(nat \<Rightarrow> error + string) \<Rightarrow> (nat \<Rightarrow> string) \<Rightarrow> (request \<Rightarrow> nat \<Rightarrow> error + APIResponse) \<Rightarrow> env" where
  "envWith fp ans rt = \<lparr>getFingerprint = (\<lambda>srv p. fp), createClient = (\<lambda>u. None),
     newRequest = (\<lambda>m u. None), roundTrip = rt, buildGenericErrMsg = (\<lambda>r. ''request failed''),
     stdinLine = ans, fsWritable = True\<rparr>"

definition offline :: "request \<Rightarrow> nat \<Rightarrow> error + APIResponse" where
  "offline req k = Inl ''connection refused''"

text \<open>Responses of \<^verbatim>\<open>show-task\<close>: one sub-task for each status; and a response with
  a status that is not 2xx.\<close>

definition taskReply :: "string list \<Rightarrow> APIResponse" where
  "taskReply statuses = \<lparr>Success = True, StatusCode = ''200'',
     data = [(''tasks'', JArr (map (\<lambda>status. JObj [(''status'', JStr status)]) statuses))],
     ErrorMsg = []\<rparr>"

definition serverError :: APIResponse where
  "serverError = \<lparr>Success = False, StatusCode = ''500'',
     data = [(''message'', JStr ''internal error'')], ErrorMsg = []\<rparr>"

text \<open>A server whose task has a sub-task in progress at the first poll and none at
  the second; a server that fails every poll; a server whose task has a failed
  sub-task.\<close>

definition taskServer :: "request \<Rightarrow> nat \<Rightarrow> error + APIResponse" where
  "taskServer req k =
     (if k = 0 then Inr (taskReply [''succeeded'', ''in progress''])
      else Inr (taskReply [''succeeded'', ''succeeded'']))"

definition failingServer :: "request \<Rightarrow> nat \<Rightarrow> error + APIResponse" where
  "failingServer req k = Inr serverError"


definition trusted :: "(request \<Rightarrow> nat \<Rightarrow> error + APIResponse) \<Rightarrow> env" where
  "trusted rt = envWith (\<lambda>k. Inr ''AA:BB'') (\<lambda>k. ''no'') rt"

text \<open>A server that answers the login with a session, and any other command with a
  finished task.\<close>

definition loginReply :: "jmap \<Rightarrow> APIResponse" where
  "loginReply extra = \<lparr>Success = True, StatusCode = ''200'',
     data = [(''sid'', JStr ''sid-1''), (''api-server-version'', JStr ''1.8'')] @ extra,
     ErrorMsg = []\<rparr>"

definition loginServer :: "jmap \<Rightarrow> request \<Rightarrow> nat \<Rightarrow> error + APIResponse" where
  "loginServer extra req k =
     (if reqCommand req = ''login'' then Inr (loginReply extra)
      else Inr (taskReply [''succeeded'']))"





text \<open>A caller that issues \<^verbatim>\<open>ApiCallSimple\<close> for one command after the other, whatever
  each call returns; a server that answers every request; and the same server when the
  second request on the wire fails in transport.\<close>

fun runCalls :: "env \<Rightarrow> st \<Rightarrow> (string \<times> jmap) list \<Rightarrow> st outcome option" where
  "runCalls e s [] = Some (Returned s)"
| "runCalls e s ((command, payload) # rest) =
     (case ApiCallSimple e s command payload of
        None \<Rightarrow> None
      | Some Panic \<Rightarrow> Some Panic
      | Some Exit \<Rightarrow> Some Exit
      | Some (Returned (s1, r, er)) \<Rightarrow> runCalls e s1 rest)"

definition okReply :: APIResponse where
  "okReply = \<lparr>Success = True, StatusCode = ''200'', data = [(''uid'', JStr ''u-1'')],
     ErrorMsg = []\<rparr>"

definition steadyServer :: "request \<Rightarrow> nat \<Rightarrow> error + APIResponse" where
  "steadyServer req k = Inr okReply"

definition flakyServer :: "request \<Rightarrow> nat \<Rightarrow> error + APIResponse" where
  "flakyServer req k = (if k = 1 then Inl ''connection reset by peer'' else Inr okReply)"

section \<open>The fingerprint store\<close>

lemmas fp_defs = CheckFingerprint_def loadFingerprintFromFile_def saveFingerprintToFile_def
  fpFileToMap_def createEmptyJsonFile_def askYesOrNoQuestion_def setFingerprint_def

lemmas scenario_defs = envWith_def state0_def client0_def removeColons_def toLowerChar_def
  trusted_def












section \<open>The probe at the head of every call\<close>

lemma prepare_overwrites:
  "getFingerprint e (server (cl s)) (port (cl s)) (probes s) = Inr fp \<Longrightarrow>
   method = [] \<or> isValidHTTPMethod (hd method) \<Longrightarrow>
   apiCallPrepare e (setFingerprint f0 s) c p sd u method = apiCallPrepare e s c p sd u method"
  by (auto simp add: apiCallPrepare_def setFingerprint_def Let_def)

text \<open>
  C10. A call with a valid method probes the server first. When the probe fails, the
  call returns the probe's error beside the empty response, and the only change of the
  state is the count of probes: no request was sent. When the probe succeeds, the call
  does not depend on the fingerprint that was configured (\<open>f0\<close> is arbitrary); and with
  \<^verbatim>\<open>ignoreServerCertificate\<close> set, the client's fingerprint after the preparation, and
  the one the request carries, is the probed one.
\<close>

theorem probe_overwrites_fingerprint:
  assumes valid: "method = [] \<or> isValidHTTPMethod (hd method)"
  shows "(getFingerprint e (server (cl s)) (port (cl s)) (probes s) = Inl err \<longrightarrow>
            apiCall e s c p sd w u i method
              = Some (Returned (s\<lparr>probes := probes s + 1\<rparr>, emptyResponse, Some err)))
       \<and> (getFingerprint e (server (cl s)) (port (cl s)) (probes s) = Inr fp \<longrightarrow>
            apiCall e (setFingerprint f0 s) c p sd w u i method = apiCall e s c p sd w u i method
            \<and> (ignoreServerCertificate (cl s) \<longrightarrow> createClient e u = None
                \<longrightarrow> newRequest e (if method \<noteq> [] then hd method else ''POST'')
                      (buildUrl (cl s) c) = None
                \<longrightarrow> (\<exists>req. apiCallPrepare e s c p sd u method
                            = (setFingerprint fp (s\<lparr>probes := probes s + 1\<rparr>), Inr req)
                          \<and> reqPinned req = fp)))"
  using valid
  apply (intro conjI impI)
    apply (auto simp add: apiCall_def apiCallWith_def apiCallPrepare_def Let_def)[1]
   apply (simp add: apiCall_def apiCallWith_def prepare_overwrites)
  apply (auto simp add: apiCallPrepare_def Let_def CheckFingerprint_def setFingerprint_def buildUrl_def)
  done

theorem probe_overwrites_fingerprint_witness:
  "apiCall (envWith (\<lambda>k. Inl ''no route to host'') (\<lambda>k. ''no'') offline)
       (state0 (client0\<lparr>ignoreServerCertificate := True\<rparr>)) ''show-hosts'' [] [] True False False []
     = Some (Returned ((state0 (client0\<lparr>ignoreServerCertificate := True\<rparr>))\<lparr>probes := 1\<rparr>,
                       emptyResponse, Some ''no route to host''))
   \<and> apiCall (envWith (\<lambda>k. Inr ''CC:DD'') (\<lambda>k. ''no'') offline)
         (setFingerprint ''00'' (state0 (client0\<lparr>ignoreServerCertificate := True\<rparr>)))
         ''show-hosts'' [] [] True False False []
       = apiCall (envWith (\<lambda>k. Inr ''CC:DD'') (\<lambda>k. ''no'') offline)
           (state0 (client0\<lparr>ignoreServerCertificate := True\<rparr>))
           ''show-hosts'' [] [] True False False []
   \<and> fst (apiCallPrepare (envWith (\<lambda>k. Inr ''CC:DD'') (\<lambda>k. ''no'') offline)
            (state0 (client0\<lparr>ignoreServerCertificate := True\<rparr>)) ''show-hosts'' [] [] False [])
       = setFingerprint ''CC:DD'' ((state0 (client0\<lparr>ignoreServerCertificate := True\<rparr>))\<lparr>probes := 1\<rparr>)"
  using probe_overwrites_fingerprint[of "[]"
          "envWith (\<lambda>k. Inl ''no route to host'') (\<lambda>k. ''no'') offline"
          "state0 (client0\<lparr>ignoreServerCertificate := True\<rparr>)" "''no route to host''"
          "''show-hosts''" "[]" "[]" True False False "''CC:DD''" "''00''"]
        probe_overwrites_fingerprint[of "[]"
          "envWith (\<lambda>k. Inr ''CC:DD'') (\<lambda>k. ''no'') offline"
          "state0 (client0\<lparr>ignoreServerCertificate := True\<rparr>)" "''no route to host''"
          "''show-hosts''" "[]" "[]" True False False "''CC:DD''" "''00''"]
  by (auto simp add: scenario_defs)

section \<open>Polling a task\<close>

lemmas eval_defs = waitForTask_def showTask_def apiCallLeaf_def apiCallWith_def apiCallPrepare_def
  exchange_def followTask_def gated_def buildUrl_def buildHeaders_def Itoa_def natDigits.simps
  checkTasksStatus_def jget_def InProgress_def taskFailed_def markFailed_def emptyResponse_def

lemma retryPoll_done: "Success r \<Longrightarrow> retryPoll e s p r n = Some (Returned (s, r, None))"
  by (subst retryPoll.simps) simp

lemma retryPoll_step:
  "\<not> Success r \<Longrightarrow> n < 5 \<Longrightarrow>
   retryPoll e s p r n =
     (case showTask e s p of
        None \<Rightarrow> None
      | Some Panic \<Rightarrow> Some Panic
      | Some Exit \<Rightarrow> Some Exit
      | Some (Returned (s1, r1, Some err)) \<Rightarrow> Some (Returned (s1, emptyResponse, Some err))
      | Some (Returned (s1, r1, None)) \<Rightarrow> retryPoll e s1 p r1 (n + 1))"
  by (subst retryPoll.simps) simp

lemma retryPoll_Some:
  assumes "retryPoll e s p r n = Some out"
  shows "Success r \<or> n < 5"
  using assms
  by (rule retryPoll.raw_induct[rotated 1, where P = "\<lambda>e s p r n out. Success r \<or> n < 5"])
     (simp split: if_splits, blast)

text \<open>After the fifth retry the loop of lines 699 to 713 has no way out: the branch
  of line 710 prints and changes nothing.\<close>

lemma retryPoll_hang: "\<not> Success r \<Longrightarrow> \<not> n < 5 \<Longrightarrow> retryPoll e s p r n = None"
  by (cases "retryPoll e s p r n") (auto dest: retryPoll_Some)


lemma countTasks_gen:
  "countTasks ts c t = Some (c', t') \<Longrightarrow>
     t' = t + length ts \<and> c \<le> c' \<and> c' \<le> c + length ts
     \<and> ((c' = c + length ts) =
          list_all (\<lambda>task. \<exists>m st. task = JObj m \<and> jget m ''status'' = JStr st
                                  \<and> st \<noteq> ''in progress'') ts)"
proof (induction ts arbitrary: c t)
  case Nil
  then show ?case by simp
next
  case (Cons a ts)
  then show ?case
    by (fastforce simp add: InProgress_def split: json.splits if_splits)
qed


lemma pollTask_step:
  assumes "showTask e s p = Some (Returned (s1, r, None))" and "Success r"
    and "jget (data r) ''tasks'' = JArr tasks"
    and "countTasks tasks 0 0 = Some (c, t)"
  shows "pollTask e s p = (if c = t then Some (Returned (s1, r, None)) else pollTask e s1 p)"
  using assms by (subst pollTask.simps) (simp add: retryPoll_done)


text \<open>
  C2: the code does not give up. Every poll of this server is answered with status 500;
  after the first poll and five retries \<^verbatim>\<open>waitForTask\<close> stays in the loop of line 699
  and never returns.
\<close>

theorem failed_polls_never_return:
  "waitForTask (trusted failingServer) (state0 client0) ''task-1'' = None"
  by (simp add: eval_defs pollTask.simps retryPoll_step retryPoll_hang fp_defs scenario_defs
        failingServer_def serverError_def)

text \<open>
  C6. The two counters of lines 715 to 723 agree exactly when every sub-task is an
  object whose status is a string other than \<^verbatim>\<open>in progress\<close>; after a successful poll
  \<^verbatim>\<open>waitForTask\<close>'s loop ends with that poll's response when they agree and polls again
  when they do not. With the sub-tasks \<^verbatim>\<open>succeeded\<close> and \<^verbatim>\<open>in progress\<close> at the first
  poll and both \<^verbatim>\<open>succeeded\<close> at the second, \<^verbatim>\<open>waitForTask\<close> polls twice and returns the
  second response, which is successful.
\<close>

theorem complete_iff_none_in_progress:
  assumes "countTasks tasks 0 0 = Some (completedTasks, totalTasks)"
  shows "(completedTasks = totalTasks) =
           list_all (\<lambda>task. \<exists>m st. task = JObj m \<and> jget m ''status'' = JStr st
                                   \<and> st \<noteq> ''in progress'') tasks
       \<and> (showTask e s p = Some (Returned (s1, r, None)) \<and> Success r
            \<and> jget (data r) ''tasks'' = JArr tasks \<longrightarrow>
          pollTask e s p =
            (if list_all (\<lambda>task. \<exists>m st. task = JObj m \<and> jget m ''status'' = JStr st
                                       \<and> st \<noteq> ''in progress'') tasks
             then Some (Returned (s1, r, None)) else pollTask e s1 p))
       \<and> (case waitForTask (trusted taskServer) (state0 client0) ''task-1'' of
            Some (Returned (s2, r2, None)) \<Rightarrow>
              r2 = taskReply [''succeeded'', ''succeeded''] \<and> Success r2
              \<and> map reqCommand (sent s2) = [''show-task'', ''show-task'']
          | _ \<Rightarrow> False)"
proof -
  have iff: "(completedTasks = totalTasks) =
           list_all (\<lambda>task. \<exists>m st. task = JObj m \<and> jget m ''status'' = JStr st
                                   \<and> st \<noteq> ''in progress'') tasks"
    using countTasks_gen[OF assms] by auto
  have step: "showTask e s p = Some (Returned (s1, r, None)) \<and> Success r
            \<and> jget (data r) ''tasks'' = JArr tasks \<longrightarrow>
          pollTask e s p =
            (if completedTasks = totalTasks then Some (Returned (s1, r, None)) else pollTask e s1 p)"
    using pollTask_step[OF _ _ _ assms] by blast
  have scn: "(case waitForTask (trusted taskServer) (state0 client0) ''task-1'' of
            Some (Returned (s2, r2, None)) \<Rightarrow>
              r2 = taskReply [''succeeded'', ''succeeded''] \<and> Success r2
              \<and> map reqCommand (sent s2) = [''show-task'', ''show-task'']
          | _ \<Rightarrow> False)"
    by (simp add: eval_defs pollTask.simps retryPoll_done fp_defs scenario_defs taskServer_def
          taskReply_def)
  from iff step scn show ?thesis by simp
qed

theorem complete_iff_none_in_progress_witness:
  "countTasks [JObj [(''status'', JStr ''succeeded'')], JObj [(''status'', JStr ''in progress'')]] 0 0
     = Some (1, 2)
   \<and> \<not> list_all (\<lambda>task. \<exists>m st. task = JObj m \<and> jget m ''status'' = JStr st
                                   \<and> st \<noteq> ''in progress'')
          [JObj [(''status'', JStr ''succeeded'')], JObj [(''status'', JStr ''in progress'')]]
   \<and> (\<exists>s1. showTask (trusted taskServer) (state0 client0) [(''task-id'', JStr ''task-1'')]
              = Some (Returned (s1, taskReply [''succeeded'', ''in progress''], None))
            \<and> pollTask (trusted taskServer) (state0 client0) [(''task-id'', JStr ''task-1'')]
              = pollTask (trusted taskServer) s1 [(''task-id'', JStr ''task-1'')])"
proof -
  have cnt: "countTasks [JObj [(''status'', JStr ''succeeded'')],
                         JObj [(''status'', JStr ''in progress'')]] 0 0 = Some (1, 2)"
    by (simp add: jget_def InProgress_def)
  obtain s1 where poll: "showTask (trusted taskServer) (state0 client0) [(''task-id'', JStr ''task-1'')]
              = Some (Returned (s1, taskReply [''succeeded'', ''in progress''], None))"
    by (simp add: eval_defs fp_defs scenario_defs taskServer_def taskReply_def)
  from complete_iff_none_in_progress[OF cnt, of "trusted taskServer" "state0 client0"
         "[(''task-id'', JStr ''task-1'')]" s1 "taskReply [''succeeded'', ''in progress'']"]
       cnt poll
  show ?thesis
    by (auto simp add: taskReply_def jget_def)
qed




section \<open>The login\<close>

text \<open>What the fingerprint store and the preparation of a request leave unchanged.\<close>

lemma save_frame:
  "saveFingerprintToFile e s srv fp = (s1, r) \<Longrightarrow> cl s1 = cl s \<and> sent s1 = sent s"
  by (cases "fpFile s"; cases "fsWritable e")
     (auto simp add: saveFingerprintToFile_def fpFileToMap_def createEmptyJsonFile_def
        split: if_splits)

lemma save_frame_fst [simp]:
  "cl (fst (saveFingerprintToFile e s srv fp)) = cl s"
  "sent (fst (saveFingerprintToFile e s srv fp)) = sent s"
  using save_frame[of e s srv fp "fst (saveFingerprintToFile e s srv fp)"
          "snd (saveFingerprintToFile e s srv fp)"]
  by simp_all

lemma load_frame:
  "loadFingerprintFromFile e s = (s1, L, r) \<Longrightarrow> cl s1 = cl s \<and> sent s1 = sent s"
  by (cases "fpFile s"; cases "fsWritable e")
     (auto simp add: loadFingerprintFromFile_def fpFileToMap_def createEmptyJsonFile_def
        saveFingerprintToFile_def split: if_splits option.splits)

text \<open>The trust check changes nothing of the client but its fingerprint, and sends
  nothing.\<close>

lemma check_frame:
  assumes "CheckFingerprint e s = (s1, d, r)"
  shows "sent s1 = sent s \<and> (cl s1)\<lparr>fingerprint := []\<rparr> = (cl s)\<lparr>fingerprint := []\<rparr>"
proof (cases "ignoreServerCertificate (cl s)")
  case True
  with assms show ?thesis by (simp add: CheckFingerprint_def)
next
  case False
  obtain t L lr where ld: "loadFingerprintFromFile e s = (t, L, lr)" by (metis prod_cases3)
  note lt = load_frame[OF ld]
  show ?thesis
  proof (cases lr)
    case (Some a)
    with assms False ld lt show ?thesis by (simp add: CheckFingerprint_def)
  next
    case None
    with assms False ld lt show ?thesis
      by (cases "getFingerprint e (server (cl t)) (port (cl t)) (probes t)")
         (auto simp add: CheckFingerprint_def Let_def askYesOrNoQuestion_def setFingerprint_def
            split: if_splits bool.splits)
  qed
qed

lemma prepare_frame:
  assumes "apiCallPrepare e s c p sd u m = (s1, r)"
  shows "sent s1 = sent s \<and> (cl s1)\<lparr>fingerprint := []\<rparr> = (cl s)\<lparr>fingerprint := []\<rparr>"
proof (cases "getFingerprint e (server (cl s)) (port (cl s)) (probes s)")
  case (Inl a)
  with assms show ?thesis by (auto simp add: apiCallPrepare_def Let_def split: if_splits)
next
  case (Inr fp)
  obtain t d cr where ck: "CheckFingerprint e (setFingerprint fp (s\<lparr>probes := probes s + 1\<rparr>)) = (t, d, cr)"
    by (metis prod_cases3)
  from check_frame[OF ck] have
    t: "sent t = sent s" "(cl t)\<lparr>fingerprint := []\<rparr> = (cl s)\<lparr>fingerprint := []\<rparr>"
    by (auto simp add: setFingerprint_def)
  from assms Inr ck have "s1 = t \<or> s1 = s"
    by (auto simp add: apiCallPrepare_def Let_def split: if_splits option.splits)
  with t show ?thesis by blast
qed

lemma erased_fields:
  assumes "(c1 :: ApiClient)\<lparr>fingerprint := []\<rparr> = c\<lparr>fingerprint := []\<rparr>"
  shows "totalCallsCtr c1 = totalCallsCtr c \<and> activeCallsCtr c1 = activeCallsCtr c
         \<and> duringPublish c1 = duringPublish c \<and> autoPublishBatchSize c1 = autoPublishBatchSize c
         \<and> sid c1 = sid c \<and> isProxyUsed c1 = isProxyUsed c \<and> apiVersion c1 = apiVersion c
         \<and> domain c1 = domain c \<and> server c1 = server c \<and> port c1 = port c
         \<and> apiContext c1 = apiContext c"
  using assms by (cases c1; cases c) simp

text \<open>
  The recursion of \<^verbatim>\<open>apiCall\<close> is three calls deep at most: an internal call never
  reaches the publish, and an internal call that does not wait reaches neither a task
  nor the publish. So \<open>apiCall\<close> with these flags is \<open>apiCallInternal\<close> and \<open>apiCallLeaf\<close>.
\<close>

lemma apiCall_internal: "apiCall e s c p sd w u True m = apiCallInternal e s c p sd w u True m"
  by (simp add: apiCall_def apiCallInternal_def apiCallWith_def gated_def
        split: prod.splits sum.splits option.splits outcome.splits)

lemma apiCall_leaf: "apiCall e s c p sd False u True m = apiCallLeaf e s c p sd False u True m"
  by (simp add: apiCall_def apiCallLeaf_def apiCallWith_def followTask_def gated_def
        split: prod.splits sum.splits option.splits outcome.splits)

lemma apiCall_internal_nowait:
  "apiCall e s c p sd False u True m =
     (case apiCallPrepare e s c p sd u m of
        (s1, Inl err) \<Rightarrow> Some (Returned (s1, emptyResponse, Some err))
      | (s1, Inr req) \<Rightarrow>
          (case exchange e s1 req of
             (s2, Inl err) \<Rightarrow> Some (Returned (s2, emptyResponse, Some err))
           | (s2, Inr res) \<Rightarrow> Some (Returned (s2, res, None))))"
  by (simp add: apiCall_def apiCallWith_def followTask_def gated_def
        split: prod.splits sum.splits)

lemma map_of_fold_update:
  "distinct (map fst payload) \<Longrightarrow>
   map_of (fold (\<lambda>(k, v). AList.update k v) payload acc) k =
     (case map_of payload k of Some x \<Rightarrow> Some x | None \<Rightarrow> map_of acc k)"
proof (induction payload arbitrary: acc)
  case Nil
  then show ?case by simp
next
  case (Cons a payload)
  obtain k0 v0 where a: "a = (k0, v0)" by (cases a)
  from Cons.prems a have nk: "map_of payload k0 = None"
    by (simp add: map_of_eq_None_iff)
  from Cons a nk show ?case
    by (auto simp add: AList.update_conv' split: option.splits)
qed

text \<open>
  C5, as the code has it. The login's payload is the credentials, overwritten by the two
  flags in the web context, by the domain when one is given, and by every field of the
  extra payload. The call is \<^verbatim>\<open>apiCall("login", ..., "", false, c.IsProxyUsed(), true)\<close>:
  task-waiting is off, so a successful response is returned as it is, whatever it
  carries, and the gate's counters are as they were. The client then holds the
  response's session id, the domain, and the server's API version when it had none.
\<close>

theorem login_result:
  assumes prep: "apiCallPrepare e s ''login''
                   (loginPayload (cl s) credentials continueLastSession domainName readOnly payload)
                   [] (isProxyUsed (cl s)) [] = (s1, Inr req)"
    and rt: "roundTrip e req (length (sent s1)) = Inr res"
    and ok: "Success res"
    and sidv: "jget (data res) ''sid'' = JStr v"
    and ver: "jget (data res) ''api-server-version'' = JStr ver"
    and dist: "distinct (map fst payload)"
  shows "commonLoginLogic e s credentials continueLastSession domainName readOnly payload
           = Some (Returned
               (s1\<lparr>sent := sent s @ [req],
                   cl := (cl s1)\<lparr>sid := v, domain := domainName,
                            apiVersion := (if apiVersion (cl s) = [] then ver else apiVersion (cl s))\<rparr>\<rparr>,
                res, None))
       \<and> reqCommand req = ''login''
       \<and> map_of (reqBody req) k =
           (case map_of payload k of
              Some x \<Rightarrow> Some x
            | None \<Rightarrow>
                if domainName \<noteq> [] \<and> k = ''domain'' then Some (JStr domainName)
                else if apiContext (cl s) = WebContext \<and> k = ''read-only'' then Some (JBool readOnly)
                else if apiContext (cl s) = WebContext \<and> k = ''continue-last-session''
                then Some (JBool continueLastSession)
                else map_of credentials k)
       \<and> totalCallsCtr (cl s1) = totalCallsCtr (cl s)
       \<and> activeCallsCtr (cl s1) = activeCallsCtr (cl s)
       \<and> duringPublish (cl s1) = duringPublish (cl s)"
proof -
  from prepare_frame[OF prep] have fr: "sent s1 = sent s"
    "(cl s1)\<lparr>fingerprint := []\<rparr> = (cl s)\<lparr>fingerprint := []\<rparr>" by auto
  note ef = erased_fields[OF fr(2)]
  have body: "reqBody req = loginPayload (cl s) credentials continueLastSession domainName readOnly payload"
    and cmd: "reqCommand req = ''login''"
    using prep by (auto simp add: apiCallPrepare_def Let_def split: sum.splits prod.splits if_splits option.splits)
  have look: "map_of (loginPayload (cl s) credentials continueLastSession domainName readOnly payload) k =
           (case map_of payload k of
              Some x \<Rightarrow> Some x
            | None \<Rightarrow>
                if domainName \<noteq> [] \<and> k = ''domain'' then Some (JStr domainName)
                else if apiContext (cl s) = WebContext \<and> k = ''read-only'' then Some (JBool readOnly)
                else if apiContext (cl s) = WebContext \<and> k = ''continue-last-session''
                then Some (JBool continueLastSession)
                else map_of credentials k)"
    by (simp add: loginPayload_def Let_def map_of_fold_update[OF dist] AList.update_conv'
          split: option.splits)
  have call: "commonLoginLogic e s credentials continueLastSession domainName readOnly payload
           = Some (Returned
               (s1\<lparr>sent := sent s @ [req],
                   cl := (cl s1)\<lparr>sid := v, domain := domainName,
                            apiVersion := (if apiVersion (cl s) = [] then ver else apiVersion (cl s))\<rparr>\<rparr>,
                res, None))"
    using prep rt ok sidv ver fr(1) ef
    by (simp add: commonLoginLogic_def apiCall_internal_nowait exchange_def loginStore_def Let_def)
  from call cmd body look ef show ?thesis by simp
qed

theorem login_result_witness:
  "\<exists>s2. ApiLogin (trusted (loginServer [])) (state0 (client0\<lparr>apiVersion := []\<rparr>))
           ''admin'' ''secret'' False ''dom1'' True [(''session-name'', JStr ''tf'')]
         = Some (Returned (s2, loginReply [], None))
       \<and> sid (cl s2) = ''sid-1'' \<and> domain (cl s2) = ''dom1'' \<and> apiVersion (cl s2) = ''1.8''
       \<and> map reqCommand (sent s2) = [''login'']
       \<and> map reqBody (sent s2) =
           [[(''user'', JStr ''admin''), (''password'', JStr ''secret''),
             (''continue-last-session'', JBool False), (''read-only'', JBool True),
             (''domain'', JStr ''dom1''), (''session-name'', JStr ''tf'')]]"
proof -
  obtain s1 req where prep: "apiCallPrepare (trusted (loginServer [])) (state0 (client0\<lparr>apiVersion := []\<rparr>))
       ''login''
       (loginPayload (cl (state0 (client0\<lparr>apiVersion := []\<rparr>)))
          [(''user'', JStr ''admin''), (''password'', JStr ''secret'')] False ''dom1'' True
          [(''session-name'', JStr ''tf'')])
       [] (isProxyUsed (cl (state0 (client0\<lparr>apiVersion := []\<rparr>)))) [] = (s1, Inr req)"
    and req: "reqCommand req = ''login''"
      "reqBody req = [(''user'', JStr ''admin''), (''password'', JStr ''secret''),
             (''continue-last-session'', JBool False), (''read-only'', JBool True),
             (''domain'', JStr ''dom1''), (''session-name'', JStr ''tf'')]"
    by (simp add: eval_defs fp_defs scenario_defs loginPayload_def WebContext_def)
  have rt: "roundTrip (trusted (loginServer [])) req (length (sent s1)) = Inr (loginReply [])"
    using req by (simp add: scenario_defs loginServer_def)
  from login_result[OF prep rt, of "''sid-1''" "''1.8''"] req
  show ?thesis
    by (simp add: ApiLogin_def loginReply_def jget_def state0_def client0_def)
qed

text \<open>
  C5, as the claim has it, fails: the server answers the login with a session and a
  \<^verbatim>\<open>task-id\<close>. The login returns that response after one request. A call of the same
  command with task-waiting enabled goes on to poll \<^verbatim>\<open>show-task\<close> and returns the poll's
  response.
\<close>

theorem login_waits_counterexample:
  "(\<exists>s2. commonLoginLogic (trusted (loginServer [(''task-id'', JStr ''task-9'')])) (state0 client0)
            [(''api-key'', JStr ''key'')] False [] False []
          = Some (Returned (s2, loginReply [(''task-id'', JStr ''task-9'')], None))
        \<and> map reqCommand (sent s2) = [''login''])
   \<and> (\<exists>s3. apiCall (trusted (loginServer [(''task-id'', JStr ''task-9'')])) (state0 client0) ''login''
              (loginPayload client0 [(''api-key'', JStr ''key'')] False [] False [])
              [] True False True []
          = Some (Returned (s3, taskReply [''succeeded''], None))
        \<and> map reqCommand (sent s3) = [''login'', ''show-task''])"
  apply (rule conjI)
   apply (simp add: commonLoginLogic_def loginStore_def apiCall_internal_nowait eval_defs fp_defs
      scenario_defs loginPayload_def WebContext_def loginServer_def loginReply_def)
  apply (simp add: apiCall_def eval_defs pollTask.simps retryPoll_done fp_defs
      scenario_defs loginPayload_def WebContext_def loginServer_def loginReply_def taskReply_def)
  done

section \<open>Protocol failures\<close>

lemma leaf_nowait:
  "apiCallLeaf e s c p sd False u True m =
     (case apiCallPrepare e s c p sd u m of
        (s1, Inl err) \<Rightarrow> Some (Returned (s1, emptyResponse, Some err))
      | (s1, Inr req) \<Rightarrow>
          (case exchange e s1 req of
             (s2, Inl err) \<Rightarrow> Some (Returned (s2, emptyResponse, Some err))
           | (s2, Inr res) \<Rightarrow> Some (Returned (s2, res, None))))"
  by (simp add: apiCallLeaf_def apiCallWith_def followTask_def gated_def
        split: prod.splits sum.splits)











lemma admit_ok:
  "admissible s \<Longrightarrow>
   admit s = Some (s\<lparr>cl := (cl s)\<lparr>totalCallsCtr := totalCallsCtr (cl s) + 1\<rparr>\<rparr>)"
  by (subst admit.simps) simp

lemma admit_Some_admissible:
  assumes "admit s = Some s'"
  shows "admissible s"
  using assms
  by (rule admit.raw_induct[rotated 1, where P = "\<lambda>s s'. admissible s"]) (simp split: if_splits)

lemma admit_hang: "\<not> admissible s \<Longrightarrow> admit s = None"
  by (cases "admit s") (auto dest: admit_Some_admissible)

lemma admit_eq:
  "admit s = (if admissible s
              then Some (s\<lparr>cl := (cl s)\<lparr>totalCallsCtr := totalCallsCtr (cl s) + 1\<rparr>\<rparr>)
              else None)"
  by (simp add: admit_ok admit_hang)

lemma drain_Some:
  assumes "drain s = Some s'"
  shows "\<not> activeCallsCtr (cl s) > 0"
  using assms
  by (rule drain.raw_induct[rotated 1, where P = "\<lambda>s s'. \<not> activeCallsCtr (cl s) > 0"])
     (simp split: if_splits)

lemma drain_eq: "drain s = (if activeCallsCtr (cl s) > 0 then None else Some s)"
proof (cases "activeCallsCtr (cl s) > 0")
  case True
  then show ?thesis by (cases "drain s") (auto dest: drain_Some)
next
  case False
  then show ?thesis by (subst drain.simps) simp
qed








section \<open>The rounds of a query\<close>














section \<open>The auto-publish gate\<close>

lemmas gate_defs = ApiCallSimple_def apiCall_def apiCallInternal_def apiCallWith_def
  apiCallPrepare_def exchange_def followTask_def gated_def admissible_def admit_eq drain_eq
  autoPublish_def publishDue_def finishPublish_def increaseActiveCalls_def
  decreaseActiveCalls_def buildUrl_def buildHeaders_def Itoa_def natDigits.simps jget_def
  emptyResponse_def

lemma steady_run:
  "\<exists>s4. runCalls (trusted steadyServer) (state0 (client0\<lparr>autoPublishBatchSize := 2\<rparr>))
            [(''add-host'', []), (''add-host'', []), (''add-host'', []), (''add-host'', [])]
          = Some (Returned s4)
        \<and> map reqCommand (sent s4)
            = [''add-host'', ''add-host'', ''publish'', ''add-host'', ''add-host'', ''publish'']
        \<and> totalCallsCtr (cl s4) = 0"
  by (simp add: gate_defs fp_defs scenario_defs steadyServer_def okReply_def)

lemma publish_resets_counter:
  assumes "publishDue s" and "\<not> activeCallsCtr (cl s) > 0"
    and "pub e (s\<lparr>cl := (cl s)\<lparr>duringPublish := True\<rparr>\<rparr>) ''publish'' [] (sid (cl s)) True
           (isProxyUsed (cl s)) True [] = Some (Returned (s2, publishRes, perr))"
  shows "\<exists>s3. autoPublish pub e s res = Some (Returned (s3, res, None))
              \<and> totalCallsCtr (cl s3) = 0 \<and> \<not> duringPublish (cl s3)"
  using assms by (simp add: autoPublish_def drain_eq finishPublish_def)

text \<open>The calls with \<^verbatim>\<open>internal = true\<close> change nothing of the client but its
  fingerprint.\<close>

lemma exchange_cl: "exchange e s req = (s1, x) \<Longrightarrow> cl s1 = cl s"
  by (auto simp add: exchange_def Let_def split: sum.splits)

lemma showTask_frame:
  assumes "showTask e s p = Some (Returned (s1, r, er))"
  shows "(cl s1)\<lparr>fingerprint := []\<rparr> = (cl s)\<lparr>fingerprint := []\<rparr>"
proof (cases "apiCallPrepare e s ''show-task'' p (sid (cl s)) (isProxyUsed (cl s)) []")
  case (Pair t x)
  note fr = prepare_frame[OF Pair]
  show ?thesis
  proof (cases x)
    case (Inl a)
    with assms Pair fr show ?thesis by (auto simp add: showTask_def leaf_nowait)
  next
    case (Inr req)
    obtain t2 y where ex: "exchange e t req = (t2, y)" by (cases "exchange e t req")
    from exchange_cl[OF ex] assms Pair Inr fr ex show ?thesis
      by (auto simp add: showTask_def leaf_nowait split: sum.splits)
  qed
qed

lemma retryPoll_frame:
  assumes "retryPoll e s p r n = Some (Returned (s1, r1, er))"
  shows "(cl s1)\<lparr>fingerprint := []\<rparr> = (cl s)\<lparr>fingerprint := []\<rparr>"
  using assms
  by (rule retryPoll.raw_induct[rotated 1,
        where P = "\<lambda>e s p r n out. \<forall>s1 r1 er. out = Returned (s1, r1, er) \<longrightarrow>
                     (cl s1)\<lparr>fingerprint := []\<rparr> = (cl s)\<lparr>fingerprint := []\<rparr>",
        THEN spec, THEN spec, THEN spec, THEN mp])
     (auto split: if_splits option.splits outcome.splits prod.splits dest!: showTask_frame)

lemma pollTask_frame:
  assumes "pollTask e s p = Some (Returned (s1, r1, er))"
  shows "(cl s1)\<lparr>fingerprint := []\<rparr> = (cl s)\<lparr>fingerprint := []\<rparr>"
  using assms
  by (rule pollTask.raw_induct[rotated 1,
        where P = "\<lambda>e s p out. \<forall>s1 r1 er. out = Returned (s1, r1, er) \<longrightarrow>
                     (cl s1)\<lparr>fingerprint := []\<rparr> = (cl s)\<lparr>fingerprint := []\<rparr>",
        THEN spec, THEN spec, THEN spec, THEN mp])
     (auto split: if_splits option.splits outcome.splits prod.splits json.splits
           dest!: showTask_frame retryPoll_frame)

lemma waitForTask_frame:
  assumes "waitForTask e s t = Some (Returned (s1, r1, er))"
  shows "(cl s1)\<lparr>fingerprint := []\<rparr> = (cl s)\<lparr>fingerprint := []\<rparr>"
  using assms
  by (auto simp add: waitForTask_def split: option.splits outcome.splits prod.splits
        dest!: pollTask_frame)

lemma waitEach_frame:
  "waitEach e s objs ids = Some (Returned (s1, ids1)) \<Longrightarrow>
   (cl s1)\<lparr>fingerprint := []\<rparr> = (cl s)\<lparr>fingerprint := []\<rparr>"
proof (induction objs arbitrary: s ids)
  case Nil
  then show ?case by simp
next
  case (Cons a objs)
  then show ?case
    by (auto split: json.splits option.splits outcome.splits prod.splits dest!: waitForTask_frame)
qed

lemma waitForTasks_frame:
  assumes "waitForTasks e s objs = Some (Returned (s1, r1))"
  shows "(cl s1)\<lparr>fingerprint := []\<rparr> = (cl s)\<lparr>fingerprint := []\<rparr>"
  using assms
  by (auto simp add: waitForTasks_def split: option.splits outcome.splits prod.splits
        dest!: waitEach_frame showTask_frame)

lemma followTask_frame:
  assumes "followTask waitForTask waitForTasks e s c w res = Some (Returned (s1, r1, er))"
  shows "(cl s1)\<lparr>fingerprint := []\<rparr> = (cl s)\<lparr>fingerprint := []\<rparr>"
  using assms
  by (auto simp add: followTask_def split: if_splits option.splits outcome.splits prod.splits
        json.splits dest!: waitForTask_frame waitForTasks_frame)

lemma apiCallInternal_frame:
  assumes "apiCallInternal e s c p sd w u True m = Some (Returned (s1, r1, er))"
  shows "(cl s1)\<lparr>fingerprint := []\<rparr> = (cl s)\<lparr>fingerprint := []\<rparr>"
proof (cases "apiCallPrepare e s c p sd u m")
  case (Pair t x)
  note fr = prepare_frame[OF Pair]
  show ?thesis
  proof (cases x)
    case (Inl a)
    with assms Pair fr show ?thesis
      by (auto simp add: apiCallInternal_def apiCallWith_def)
  next
    case (Inr req)
    obtain t2 y where ex: "exchange e t req = (t2, y)" by (cases "exchange e t req")
    from exchange_cl[OF ex] assms Pair Inr fr ex show ?thesis
      by (auto simp add: apiCallInternal_def apiCallWith_def gated_def
            split: sum.splits option.splits outcome.splits prod.splits
            dest!: followTask_frame)
  qed
qed

text \<open>
  An external call that returns with a \<^verbatim>\<open>nil\<close> error, from a gate at rest: the count
  goes up by one, and when it reaches the batch size the publish is called and the count
  is 0, whatever the publish returned.
\<close>

lemma external_call_counter:
  assumes N: "0 < autoPublishBatchSize (cl s)"
    and rest: "activeCallsCtr (cl s) = 0" "\<not> duringPublish (cl s)"
      "0 \<le> totalCallsCtr (cl s)" "totalCallsCtr (cl s) < autoPublishBatchSize (cl s)"
    and ret: "apiCall e s c p sd w u False m = Some (Returned (s', r, None))"
  shows "activeCallsCtr (cl s') = 0 \<and> \<not> duringPublish (cl s')
         \<and> autoPublishBatchSize (cl s') = autoPublishBatchSize (cl s)
         \<and> totalCallsCtr (cl s') =
             (if totalCallsCtr (cl s) + 1 = autoPublishBatchSize (cl s) then 0
              else totalCallsCtr (cl s) + 1)"
proof -
  obtain s1 x where prep: "apiCallPrepare e s c p sd u m = (s1, x)"
    by (cases "apiCallPrepare e s c p sd u m")
  from ret prep obtain req where x: "x = Inr req"
    by (cases x) (auto simp add: apiCall_def apiCallWith_def)
  note f1 = erased_fields[OF prepare_frame[OF prep, THEN conjunct2]]
  from f1 N have g1: "gated False s1" by (simp add: gated_def)
  from f1 rest have adm: "admissible s1" by (simp add: admissible_def)
  define s2 where "s2 = increaseActiveCalls
      (s1\<lparr>cl := (cl s1)\<lparr>totalCallsCtr := totalCallsCtr (cl s1) + 1\<rparr>\<rparr>)"
  obtain s3 y where ex: "exchange e s2 req = (s3, y)" by (cases "exchange e s2 req")
  note c3 = exchange_cl[OF ex]
  from c3 f1 N have g3: "gated False s3"
    by (simp add: gated_def s2_def increaseActiveCalls_def)
  from ret prep x g1 adm ex g3 obtain res where y: "y = Inr res"
    by (cases y) (auto simp add: apiCall_def apiCallWith_def admit_eq s2_def)
  from ret prep x g1 adm ex y obtain s4 where
    ft: "followTask waitForTask waitForTasks e s3 c w res = Some (Returned (s4, r, None))"
    and ap: "apiCall e s c p sd w u False m
               = (if gated False s4 then autoPublish apiCallInternal e (decreaseActiveCalls s4) r
                  else Some (Returned (s4, r, None)))"
    by (auto simp add: apiCall_def apiCallWith_def admit_eq s2_def autoPublish_def
          split: option.splits outcome.splits prod.splits if_splits)
  note f4 = erased_fields[OF followTask_frame[OF ft]]
  from f4 c3 f1 N have g4: "gated False s4"
    by (simp add: gated_def s2_def increaseActiveCalls_def)
  define s5 where "s5 = decreaseActiveCalls s4"
  have c5: "activeCallsCtr (cl s5) = 0" "\<not> duringPublish (cl s5)"
    "autoPublishBatchSize (cl s5) = autoPublishBatchSize (cl s)"
    "totalCallsCtr (cl s5) = totalCallsCtr (cl s) + 1"
    using f4 c3 f1 rest
    by (simp_all add: s5_def decreaseActiveCalls_def s2_def increaseActiveCalls_def)
  from ret ap g4 have run: "autoPublish apiCallInternal e s5 r = Some (Returned (s', r, None))"
    by (simp add: s5_def)
  show ?thesis
  proof (cases "totalCallsCtr (cl s) + 1 = autoPublishBatchSize (cl s)")
    case True
    with c5 N have due: "publishDue s5" by (simp add: publishDue_def)
    from run due c5 obtain s6 pr pe where
      pub: "apiCallInternal e (s5\<lparr>cl := (cl s5)\<lparr>duringPublish := True\<rparr>\<rparr>) ''publish'' []
               (sid (cl s5)) True (isProxyUsed (cl s5)) True [] = Some (Returned (s6, pr, pe))"
      and fin: "s' = finishPublish s6"
      by (auto simp add: autoPublish_def drain_eq split: option.splits outcome.splits prod.splits)
    note f6 = erased_fields[OF apiCallInternal_frame[OF pub]]
    from f6 c5 fin True show ?thesis by (simp add: finishPublish_def)
  next
    case False
    with c5 rest N have "\<not> publishDue s5" by (simp add: publishDue_def)
    with run have "s' = s5" by (simp add: autoPublish_def)
    with c5 False show ?thesis by simp
  qed
qed

text \<open>
  An admitted call whose request fails in transport returns at line 435: the count has
  gone up, and lines 467 to 494 are not reached. Once the count is at the batch size
  with no publish under way, the admission loop of the next external call has no way
  out.
\<close>

lemma failed_call_keeps_count:
  assumes "apiCallPrepare e s c p sd u m = (s1, Inr req)"
    and "gated False s1" and "admissible s1"
    and "roundTrip e req (length (sent s1)) = Inl err"
  shows "\<exists>s'. apiCall e s c p sd w u False m = Some (Returned (s', emptyResponse, Some err))
              \<and> totalCallsCtr (cl s') = totalCallsCtr (cl s1) + 1
              \<and> activeCallsCtr (cl s') = activeCallsCtr (cl s1)
              \<and> duringPublish (cl s') = duringPublish (cl s1)
              \<and> sent s' = sent s1 @ [req]"
  using assms
  by (simp add: apiCall_def apiCallWith_def admit_eq exchange_def gated_def
        increaseActiveCalls_def decreaseActiveCalls_def)

lemma full_gate_never_admits:
  assumes "apiCallPrepare e s c p sd u m = (s1, Inr req)"
    and "gated False s1" and "\<not> admissible s1"
  shows "apiCall e s c p sd w u False m = None"
  using assms by (simp add: apiCall_def apiCallWith_def admit_eq)

text \<open>
  C1: the code does not publish once per batch when a call fails in transport. With a
  batch size of 2, the first call succeeds and the second fails in \<^verbatim>\<open>client.client.Do\<close>:
  both have ended, the count is 2, and no publish was sent. The third call never
  returns.
\<close>

theorem failed_call_blocks_gate:
  "(\<exists>s2. runCalls (trusted flakyServer) (state0 (client0\<lparr>autoPublishBatchSize := 2\<rparr>))
            [(''add-host'', []), (''add-host'', [])]
          = Some (Returned s2)
        \<and> map reqCommand (sent s2) = [''add-host'', ''add-host'']
        \<and> totalCallsCtr (cl s2) = 2 \<and> activeCallsCtr (cl s2) = 0)
   \<and> runCalls (trusted flakyServer) (state0 (client0\<lparr>autoPublishBatchSize := 2\<rparr>))
            [(''add-host'', []), (''add-host'', []), (''add-host'', [])]
       = None"
  by (simp add: gate_defs fp_defs scenario_defs flakyServer_def okReply_def)

end
